theory Spec2Isabelle
  imports Complex_Main
begin

section \<open>Values of the data frames\<close>

text \<open>
  The notebook \<^verbatim>\<open>us-state-data.ipynb\<close> keeps its tables in pandas data frames and
  moves them through SQLite (\<^verbatim>\<open>sqldf\<close>). A cell of a float column is a finite
  number, an infinity or NaN; pandas reads NaN as the null of a numeric column. Finite
  arithmetic is exact here (rounding is not modelled); what division by zero and NaN do
  is written out, since the rate and multiplier columns divide by columns that can hold
  zero. Zero divisors are the \<^verbatim>\<open>+0.0\<close> that an integer zero and \<^verbatim>\<open>1.0 + (-1)\<close> give.
\<close>

datatype fval = Fin real | PInf | NInf | NaN

fun fneg :: "fval \<Rightarrow> fval" where
  "fneg (Fin a) = Fin (- a)"
| "fneg PInf = NInf"
| "fneg NInf = PInf"
| "fneg NaN = NaN"

fun fadd :: "fval \<Rightarrow> fval \<Rightarrow> fval" where
  "fadd (Fin a) (Fin b) = Fin (a + b)"
| "fadd NaN y = NaN"
| "fadd x NaN = NaN"
| "fadd PInf NInf = NaN"
| "fadd NInf PInf = NaN"
| "fadd PInf y = PInf"
| "fadd NInf y = NInf"
| "fadd x PInf = PInf"
| "fadd x NInf = NInf"

fun scale_inf :: "fval \<Rightarrow> real \<Rightarrow> fval" where
  "scale_inf i b = (if b = 0 then NaN else if 0 < b then i else fneg i)"

fun fmul :: "fval \<Rightarrow> fval \<Rightarrow> fval" where
  "fmul (Fin a) (Fin b) = Fin (a * b)"
| "fmul NaN y = NaN"
| "fmul x NaN = NaN"
| "fmul (Fin a) y = scale_inf y a"
| "fmul x (Fin b) = scale_inf x b"
| "fmul PInf y = y"
| "fmul NInf y = fneg y"

fun fdiv :: "fval \<Rightarrow> fval \<Rightarrow> fval" where
  "fdiv (Fin a) (Fin b) =
     (if b = 0 then (if a = 0 then NaN else if 0 < a then PInf else NInf)
      else Fin (a / b))"
| "fdiv NaN y = NaN"
| "fdiv x NaN = NaN"
| "fdiv (Fin a) y = Fin 0"
| "fdiv x (Fin b) = (if 0 \<le> b then x else fneg x)"
| "fdiv x y = NaN"

text \<open>A nullable integer column read as floats: null is NaN.\<close>

fun num :: "int option \<Rightarrow> fval" where
  "num None = NaN"
| "num (Some n) = Fin (of_int n)"

text \<open>\<^verbatim>\<open>coalesce(x, 0)\<close> of the join query.\<close>

fun coalesce0 :: "int option \<Rightarrow> int" where
  "coalesce0 None = 0"
| "coalesce0 (Some n) = n"

datatype error = ValueError | PandaSQLException

section \<open>The tables\<close>

text \<open>
  \<^verbatim>\<open>virus_df\<close> (alias \<^verbatim>\<open>s\<close> in the join query): one row per state and day. A date
  is a day number, since \<^verbatim>\<open>obs_dt\<close> is parsed from \<^verbatim>\<open>%Y%m%d\<close> and written back as
  \<^verbatim>\<open>%Y-%m-%d\<close>; a blank count of the CSV is null.
\<close>

record case_record =
  s_state :: string
  s_obs_dt :: int
  s_positive :: "int option"
  s_negative :: "int option"
  s_pending :: "int option"
  s_hospitalized :: "int option"
  s_death :: "int option"
  s_total :: "int option"

text \<open>
  \<^verbatim>\<open>census_df\<close> (alias \<^verbatim>\<open>c\<close>): one row per state of the census answer, with
  the eleven variables under their new names, the numeric code \<^verbatim>\<open>state\<close>, and the
  columns \<^verbatim>\<open>state_cd\<close> and \<^verbatim>\<open>state_name\<close>. The loaders that fill the two input
  tables are not modelled.
\<close>

record census_record =
  c_population_total :: "int option"
  c_median_age_male :: "real option"
  c_median_age_female :: "real option"
  c_race_white_alone :: "int option"
  c_race_afr_alone :: "int option"
  c_race_asian_alone :: "int option"
  c_hisp_not_hisp :: "int option"
  c_transport_drive_alone :: "int option"
  c_transport_public :: "int option"
  c_transport_walk :: "int option"
  c_healthins_none :: "int option"
  c_state :: string
  c_state_cd :: string
  c_state_name :: string

text \<open>\<^verbatim>\<open>firstcase\<close> (alias \<^verbatim>\<open>f\<close>): the answer of the grouping query.\<close>

record firstcase_record =
  f_state :: string
  f_obs_dt :: int

text \<open>\<^verbatim>\<open>data\<close> as the join query returns it.\<close>

record data_row =
  state_name :: string
  state :: string
  obs_dt :: int
  first_obs_dt :: "int option"
  positive :: int
  negative :: int
  pending :: int
  hospitalized :: int
  death :: int
  total_count :: int
  population :: "int option"
  median_age_male :: "real option"
  median_age_female :: "real option"
  population_total :: "int option"
  race_white_alone :: "int option"
  race_afr_alone :: "int option"
  race_asian_alone :: "int option"
  hisp_not_hisp :: "int option"
  transport_drive_alone :: "int option"
  transport_public :: "int option"
  transport_walk :: "int option"
  healthins_none :: "int option"

text \<open>\<^verbatim>\<open>data\<close> with the columns the last two cells add.\<close>

record metric_row = data_row +
  time_elapsed_since_firstpos :: "int option"
  days_elapsed_since_firstpos :: int
  pos_per100k :: fval
  death_per100k :: fval
  adj_multiplier :: fval
  adj_pos_per100k :: fval
  adj_death_per100k :: fval

section \<open>The first observation of each state\<close>

text \<open>
  \<^verbatim>\<open>select state, min(obs_dt) as obs_dt from virus_df where positive is not null group by 1\<close>.
  The grouping runs over the rows that pass the filter, keeping one row per state with
  the least date seen so far.
\<close>

fun group_min :: "case_record \<Rightarrow> firstcase_record list \<Rightarrow> firstcase_record list" where
  "group_min s [] = [\<lparr>f_state = s_state s, f_obs_dt = s_obs_dt s\<rparr>]"
| "group_min s (f # fs) =
     (if f_state f = s_state s
      then f\<lparr>f_obs_dt := min (f_obs_dt f) (s_obs_dt s)\<rparr> # fs
      else f # group_min s fs)"

definition firstcase_query :: "case_record list \<Rightarrow> firstcase_record list" where
  "firstcase_query virus_df =
     fold group_min (filter (\<lambda>s. s_positive s \<noteq> None) virus_df) []"

section \<open>The join query\<close>

text \<open>The select list of the join query, for one joined triple.\<close>

definition select_row :: "case_record \<Rightarrow> census_record \<Rightarrow> int option \<Rightarrow> data_row" where
  "select_row s c f =
     \<lparr>state_name = c_state_name c,
      state = s_state s,
      obs_dt = s_obs_dt s,
      first_obs_dt = f,
      positive = coalesce0 (s_positive s),
      negative = coalesce0 (s_negative s),
      pending = coalesce0 (s_pending s),
      hospitalized = coalesce0 (s_hospitalized s),
      death = coalesce0 (s_death s),
      total_count = coalesce0 (s_total s),
      population = c_population_total c,
      median_age_male = c_median_age_male c,
      median_age_female = c_median_age_female c,
      population_total = c_population_total c,
      race_white_alone = c_race_white_alone c,
      race_afr_alone = c_race_afr_alone c,
      race_asian_alone = c_race_asian_alone c,
      hisp_not_hisp = c_hisp_not_hisp c,
      transport_drive_alone = c_transport_drive_alone c,
      transport_public = c_transport_public c,
      transport_walk = c_transport_walk c,
      healthins_none = c_healthins_none c\<rparr>"

text \<open>
  \<^verbatim>\<open>left join firstcase as f on s.state = f.state\<close>: one row per matching row of
  \<^verbatim>\<open>firstcase\<close>, and one row with a null date when none matches.
\<close>

definition left_join_firstcase :: "firstcase_record list \<Rightarrow> case_record \<Rightarrow> census_record
    \<Rightarrow> data_row list" where
  "left_join_firstcase fc s c =
     (case filter (\<lambda>f. s_state s = f_state f) fc of
        [] \<Rightarrow> [select_row s c None]
      | f # fs \<Rightarrow> map (\<lambda>f. select_row s c (Some (f_obs_dt f))) (f # fs))"

text \<open>\<^verbatim>\<open>from virus_df as s inner join census_df as c on s.state = c.state_cd\<close>.\<close>

definition data_query :: "case_record list \<Rightarrow> census_record list \<Rightarrow> firstcase_record list
    \<Rightarrow> data_row list" where
  "data_query virus_df census_df fc =
     concat (map (\<lambda>s. concat (map (left_join_firstcase fc s)
                                  (filter (\<lambda>c. s_state s = c_state_cd c) census_df)))
                 virus_df)"

section \<open>The metric columns\<close>

text \<open>
  \<^verbatim>\<open>data['obs_dt'] - data['first_obs_dt']\<close>: a null first date gives \<^verbatim>\<open>NaT\<close>.
  (The two \<^verbatim>\<open>pd.to_datetime\<close> calls before it parse the day strings of the query
  back into dates, which are the same day numbers here.)
\<close>

definition time_elapsed :: "data_row \<Rightarrow> int option" where
  "time_elapsed r = (case first_obs_dt r of None \<Rightarrow> None | Some f \<Rightarrow> Some (obs_dt r - f))"

text \<open>
  \<^verbatim>\<open>.astype('timedelta64[D]').astype(int)\<close>: the first conversion gives a float
  column of days with NaN for \<^verbatim>\<open>NaT\<close>; the second raises \<^verbatim>\<open>ValueError\<close> (cannot
  convert non-finite values to integer) when the column holds a NaN.
\<close>

fun astype_int :: "int option list \<Rightarrow> error + int list" where
  "astype_int [] = Inr []"
| "astype_int (None # col) = Inl ValueError"
| "astype_int (Some d # col) =
     (case astype_int col of Inl e \<Rightarrow> Inl e | Inr ds \<Rightarrow> Inr (d # ds))"

text \<open>\<^verbatim>\<open>100000.0 * (data[count] / data['population'])\<close>.\<close>

definition per100k :: "int \<Rightarrow> int option \<Rightarrow> fval" where
  "per100k n pop = fmul (Fin 100000) (fdiv (Fin (of_int n)) (num pop))"

text \<open>\<^verbatim>\<open>data.days_elapsed_since_firstpos / (1.0 + data.days_elapsed_since_firstpos)\<close>.\<close>

definition multiplier :: "int \<Rightarrow> fval" where
  "multiplier d = fdiv (Fin (of_int d)) (fadd (Fin 1) (Fin (of_int d)))"

definition metric_columns :: "data_row \<Rightarrow> int \<Rightarrow> metric_row" where
  "metric_columns r d =
     data_row.extend r
       (metric_row.fields
          (time_elapsed r)
          d
          (per100k (positive r) (population r))
          (per100k (death r) (population r))
          (multiplier d)
          (fmul (per100k (positive r) (population r)) (multiplier d))
          (fmul (per100k (death r) (population r)) (multiplier d)))"

definition compute_metrics :: "data_row list \<Rightarrow> error + metric_row list" where
  "compute_metrics rows =
     (case astype_int (map time_elapsed rows) of
        Inl e \<Rightarrow> Inl e
      | Inr days \<Rightarrow> Inr (map (\<lambda>(r, d). metric_columns r d) (zip rows days)))"

section \<open>The cells as steps on the notebook's globals\<close>

text \<open>
  \<^verbatim>\<open>sqldf(sql, globals())\<close> reads its tables from the global variables of the
  notebook, and the cells bind \<^verbatim>\<open>firstcase\<close> and \<^verbatim>\<open>data\<close> there. A variable that
  no cell has bound yet is \<open>None\<close>. The cells from the join query to the adjusted rates
  are one step, since they build the one frame \<^verbatim>\<open>data\<close>; an exception ends the run.
\<close>

record globals =
  virus_df :: "case_record list"
  census_df :: "census_record list"
  firstcase :: "firstcase_record list option"
  data :: "metric_row list option"

definition firstcase_cell :: "globals \<Rightarrow> error + globals" where
  "firstcase_cell g = Inr (g\<lparr>firstcase := Some (firstcase_query (virus_df g))\<rparr>)"

definition data_cells :: "globals \<Rightarrow> error + globals" where
  "data_cells g =
     (case firstcase g of
        None \<Rightarrow> Inl PandaSQLException
      | Some fc \<Rightarrow>
          (case compute_metrics (data_query (virus_df g) (census_df g) fc) of
             Inl e \<Rightarrow> Inl e
           | Inr rows \<Rightarrow> Inr (g\<lparr>data := Some rows\<rparr>)))"

definition run_pipeline :: "globals \<Rightarrow> error + globals" where
  "run_pipeline g = (case firstcase_cell g of Inl e \<Rightarrow> Inl e | Inr g' \<Rightarrow> data_cells g')"

text \<open>The rows a run writes, from the two input tables alone.\<close>

definition pipeline :: "case_record list \<Rightarrow> census_record list \<Rightarrow> error + metric_row list" where
  "pipeline v c = compute_metrics (data_query v c (firstcase_query v))"

section \<open>What the tables denote\<close>

text \<open>
  The mapping from states to dates that a \<^verbatim>\<open>firstcase\<close> table denotes, the dates of
  the records of a state that qualify as observations (a positive count that is not null;
  a recorded zero qualifies), the dates of a state in a list of records, and the first
  observation of a state: the least of its qualifying dates, if it has one.
\<close>

definition first_obs_of :: "firstcase_record list \<Rightarrow> string \<Rightarrow> int option" where
  "first_obs_of fs = map_of (map (\<lambda>f. (f_state f, f_obs_dt f)) fs)"

definition qualifying_dates :: "case_record list \<Rightarrow> string \<Rightarrow> int list" where
  "qualifying_dates v st = map s_obs_dt (filter (\<lambda>s. s_state s = st \<and> s_positive s \<noteq> None) v)"

definition dates_of :: "case_record list \<Rightarrow> string \<Rightarrow> int set" where
  "dates_of xs st = s_obs_dt ` {s \<in> set xs. s_state s = st}"

definition baseline :: "case_record list \<Rightarrow> string \<Rightarrow> int option" where
  "baseline v st =
     (if qualifying_dates v st = [] then None else Some (Min (set (qualifying_dates v st))))"


text \<open>The products of two numbers that are NaN: zero times an infinity.\<close>

definition zero_times_inf :: "fval \<Rightarrow> fval \<Rightarrow> bool" where
  "zero_times_inf x y \<longleftrightarrow>
     (x = Fin 0 \<and> (y = PInf \<or> y = NInf)) \<or> ((x = PInf \<or> x = NInf) \<and> y = Fin 0)"

section \<open>Example tables\<close>

text \<open>
  A case record with its state, day, positive count and deaths (the total repeats the
  positive count, the other counts are null), and a census row with its numeric code,
  state code, name and population.
\<close>

definition ex_case :: "string \<Rightarrow> int \<Rightarrow> int option \<Rightarrow> int option \<Rightarrow> case_record" where
  "ex_case st d p dth =
     \<lparr>s_state = st, s_obs_dt = d, s_positive = p, s_negative = None, s_pending = None,
      s_hospitalized = None, s_death = dth, s_total = p\<rparr>"

definition ex_census :: "string \<Rightarrow> string \<Rightarrow> string \<Rightarrow> int option \<Rightarrow> census_record" where
  "ex_census fips cd nm pop =
     \<lparr>c_population_total = pop, c_median_age_male = None, c_median_age_female = None,
      c_race_white_alone = None, c_race_afr_alone = None, c_race_asian_alone = None,
      c_hisp_not_hisp = None, c_transport_drive_alone = None, c_transport_public = None,
      c_transport_walk = None, c_healthins_none = None, c_state = fips,
      c_state_cd = cd, c_state_name = nm\<rparr>"

text \<open>
  Washington with a null count on day 3, its first count on day 5 and a recorded zero on
  day 7, and a record of \<^verbatim>\<open>ZZ\<close>, a code of no state; the census knows Washington
  alone.
\<close>

definition ex_virus :: "case_record list" where
  "ex_virus =
     [ex_case ''WA'' 3 None None, ex_case ''WA'' 5 (Some 2) None, ex_case ''ZZ'' 5 (Some 9) None,
      ex_case ''WA'' 7 (Some 0) (Some 1)]"

definition ex_wa :: census_record where
  "ex_wa = ex_census ''53'' ''WA'' ''Washington'' (Some 500000)"

definition ex_census_df :: "census_record list" where
  "ex_census_df = [ex_census ''53'' ''WA'' ''Washington'' (Some 500000)]"

definition ex_rows :: "metric_row list" where
  "ex_rows =
     [metric_columns (select_row (ex_case ''WA'' 3 None None) ex_wa (Some 5)) (- 2),
      metric_columns (select_row (ex_case ''WA'' 5 (Some 2) None) ex_wa (Some 5)) 0,
      metric_columns (select_row (ex_case ''WA'' 7 (Some 0) (Some 1)) ex_wa (Some 5)) 2]"

definition ex_globals :: "firstcase_record list option \<Rightarrow> metric_row list option \<Rightarrow> globals" where
  "ex_globals fc rows = \<lparr>virus_df = ex_virus, census_df = ex_census_df, firstcase = fc, data = rows\<rparr>"

text \<open>Wyoming with ten cases and no deaths on day 10, and a census population of zero.\<close>

definition ex_virus_wy :: "case_record list" where
  "ex_virus_wy = [ex_case ''WY'' 10 (Some 10) (Some 0)]"

definition ex_census_wy :: "census_record list" where
  "ex_census_wy = [ex_census ''56'' ''WY'' ''Wyoming'' (Some 0)]"

lemmas ex_defs = ex_virus_def ex_census_df_def ex_case_def ex_census_def

lemmas ex_wy_defs = ex_virus_wy_def ex_census_wy_def ex_case_def ex_census_def

lemmas eval_defs = firstcase_query_def data_query_def left_join_firstcase_def select_row_def
  pipeline_def compute_metrics_def time_elapsed_def metric_columns_def data_row.defs metric_row.defs
  per100k_def multiplier_def

section \<open>Properties of the grouping query\<close>

lemma group_min_keys: "f_state ` set (group_min s fs) = insert (s_state s) (f_state ` set fs)"
  by (induction fs) auto

lemma group_min_distinct:
  "distinct (map f_state fs) \<Longrightarrow> distinct (map f_state (group_min s fs))"
proof (induction fs)
  case Nil
  then show ?case by simp
next
  case (Cons f fs)
  have "f_state ` set (group_min s fs) = insert (s_state s) (f_state ` set fs)"
    by (rule group_min_keys)
  with Cons show ?case by auto
qed

lemma group_min_lookup:
  "first_obs_of (group_min s fs) st =
     (if st = s_state s
      then Some (case first_obs_of fs st of None \<Rightarrow> s_obs_dt s | Some m \<Rightarrow> min m (s_obs_dt s))
      else first_obs_of fs st)"
  by (induction fs) (auto simp: first_obs_of_def)

lemma fold_group_min_distinct:
  "distinct (map f_state acc) \<Longrightarrow> distinct (map f_state (fold group_min xs acc))"
  by (induction xs arbitrary: acc) (auto intro: group_min_distinct)

lemma Min_insert_min:
  "finite A \<Longrightarrow> Min (insert (min a b) A) = Min (insert a (insert b A))"
  by (cases "A = {}") (auto simp: min.assoc)

lemma dates_of_simps:
  "dates_of [] st = {}"
  "dates_of (x # xs) st = (if s_state x = st then insert (s_obs_dt x) (dates_of xs st) else dates_of xs st)"
  by (auto simp: dates_of_def)

lemma finite_dates_of: "finite (dates_of xs st)"
  by (simp add: dates_of_def)

lemma fold_group_min_lookup:
  "first_obs_of (fold group_min xs acc) st =
     (if dates_of xs st \<union> set_option (first_obs_of acc st) = {} then None
      else Some (Min (dates_of xs st \<union> set_option (first_obs_of acc st))))"
proof (induction xs arbitrary: acc)
  case Nil
  then show ?case by (cases "first_obs_of acc st") (simp_all add: dates_of_simps)
next
  case (Cons x xs)
  show ?case
  proof (cases "s_state x = st")
    case False
    then show ?thesis by (simp add: Cons group_min_lookup dates_of_simps)
  next
    case True
    show ?thesis
    proof (cases "first_obs_of acc st")
      case None
      with True show ?thesis by (simp add: Cons group_min_lookup dates_of_simps)
    next
      case (Some m)
      have "Min (insert (min m (s_obs_dt x)) (dates_of xs st)) =
            Min (insert m (insert (s_obs_dt x) (dates_of xs st)))"
        by (rule Min_insert_min) (rule finite_dates_of)
      with True Some show ?thesis
        by (simp add: Cons group_min_lookup dates_of_simps insert_commute)
    qed
  qed
qed

lemma first_obs_of_firstcase:
  "first_obs_of (firstcase_query v) st =
     (if set (qualifying_dates v st) = {} then None else Some (Min (set (qualifying_dates v st))))"
proof -
  let ?w = "filter (\<lambda>s. s_positive s \<noteq> None) v"
  have d: "dates_of ?w st = set (qualifying_dates v st)"
    by (auto simp: dates_of_def qualifying_dates_def)
  have e: "first_obs_of [] st = None"
    by (simp add: first_obs_of_def)
  have "first_obs_of (fold group_min ?w []) st =
     (if dates_of ?w st \<union> set_option (first_obs_of [] st) = {} then None
      else Some (Min (dates_of ?w st \<union> set_option (first_obs_of [] st))))"
    by (rule fold_group_min_lookup)
  then show ?thesis
    unfolding firstcase_query_def d e by simp
qed

lemma firstcase_distinct: "distinct (map f_state (firstcase_query v))"
  by (simp add: firstcase_query_def fold_group_min_distinct)

lemma first_obs_of_mem:
  "distinct (map f_state fs) \<Longrightarrow> f \<in> set fs \<longleftrightarrow> first_obs_of fs (f_state f) = Some (f_obs_dt f)"
  by (induction fs) (auto simp: first_obs_of_def image_iff)


lemma first_obs_of_baseline: "first_obs_of (firstcase_query v) st = baseline v st"
  by (simp add: first_obs_of_firstcase baseline_def)

lemma baseline_None: "baseline v st = None \<longleftrightarrow> (\<forall>s\<in>set v. s_state s = st \<longrightarrow> s_positive s = None)"
  by (auto simp: baseline_def qualifying_dates_def filter_empty_conv)



text \<open>
  A record whose positive count is not null does not lie before the first observation of
  its state; a record with a null count can.
\<close>

lemma qualifying_record_not_before_baseline:
  assumes "s \<in> set v" and "s_positive s \<noteq> None" and "baseline v (s_state s) = Some f"
  shows "f \<le> s_obs_dt s"
proof -
  from assms(1,2) have "s_obs_dt s \<in> set (qualifying_dates v (s_state s))"
    by (auto simp: qualifying_dates_def)
  then have "Min (set (qualifying_dates v (s_state s))) \<le> s_obs_dt s"
    by simp
  with assms(3) show ?thesis
    by (auto simp: baseline_def split: if_splits)
qed



section \<open>Properties of the join query\<close>

lemma select_row_sel:
  "state_name (select_row s c f) = c_state_name c"
  "state (select_row s c f) = s_state s"
  "obs_dt (select_row s c f) = s_obs_dt s"
  "first_obs_dt (select_row s c f) = f"
  "positive (select_row s c f) = coalesce0 (s_positive s)"
  "negative (select_row s c f) = coalesce0 (s_negative s)"
  "pending (select_row s c f) = coalesce0 (s_pending s)"
  "hospitalized (select_row s c f) = coalesce0 (s_hospitalized s)"
  "death (select_row s c f) = coalesce0 (s_death s)"
  "total_count (select_row s c f) = coalesce0 (s_total s)"
  "population (select_row s c f) = c_population_total c"
  by (simp_all add: select_row_def)

lemma left_join_mem:
  "r \<in> set (left_join_firstcase fc s c) \<longleftrightarrow>
     (s_state s \<notin> f_state ` set fc \<and> r = select_row s c None) \<or>
     (\<exists>f\<in>set fc. f_state f = s_state s \<and> r = select_row s c (Some (f_obs_dt f)))"
proof (cases "filter (\<lambda>f. s_state s = f_state f) fc")
  case Nil
  then have "\<forall>f\<in>set fc. f_state f \<noteq> s_state s"
    by (auto simp: filter_empty_conv)
  with Nil show ?thesis
    by (auto simp: left_join_firstcase_def image_iff)
next
  case (Cons f fs)
  let ?m = "filter (\<lambda>f. s_state s = f_state f) fc"
  have "f \<in> set ?m"
    unfolding Cons by simp
  then have "s_state s \<in> f_state ` set fc"
    by auto
  moreover have "left_join_firstcase fc s c = map (\<lambda>f. select_row s c (Some (f_obs_dt f))) ?m"
    by (simp add: left_join_firstcase_def Cons)
  ultimately show ?thesis
    by auto
qed

lemma data_query_mem:
  "r \<in> set (data_query v c fc) \<longleftrightarrow>
     (\<exists>s\<in>set v. \<exists>d\<in>set c. s_state s = c_state_cd d \<and> r \<in> set (left_join_firstcase fc s d))"
  by (auto simp: data_query_def)

lemma filter_firstcase:
  "distinct (map f_state fs) \<Longrightarrow>
   filter (\<lambda>f. st = f_state f) fs =
     (case first_obs_of fs st of None \<Rightarrow> [] | Some d \<Rightarrow> [\<lparr>f_state = st, f_obs_dt = d\<rparr>])"
proof (induction fs)
  case Nil
  then show ?case by (simp add: first_obs_of_def)
next
  case (Cons f fs)
  show ?case
  proof (cases "st = f_state f")
    case True
    with Cons.prems have "st \<notin> f_state ` set fs" by simp
    then have "filter (\<lambda>f. st = f_state f) fs = []"
      by (auto simp: filter_empty_conv)
    with True show ?thesis by (simp add: first_obs_of_def)
  next
    case False
    with Cons show ?thesis by (simp add: first_obs_of_def)
  qed
qed

lemma left_join_distinct:
  "distinct (map f_state fc) \<Longrightarrow>
   left_join_firstcase fc s c = [select_row s c (first_obs_of fc (s_state s))]"
  by (simp add: left_join_firstcase_def filter_firstcase split: option.splits)

lemma data_query_firstcase:
  "data_query v c (firstcase_query v) =
     concat (map (\<lambda>s. map (\<lambda>d. select_row s d (baseline v (s_state s)))
                         (filter (\<lambda>d. s_state s = c_state_cd d) c)) v)"
proof -
  have "concat (map (left_join_firstcase (firstcase_query v) s) ds)
     = map (\<lambda>d. select_row s d (baseline v (s_state s))) ds" for s ds
    by (induction ds) (simp_all add: left_join_distinct firstcase_distinct first_obs_of_baseline)
  then show ?thesis
    by (simp add: data_query_def)
qed

lemma data_query_firstcase_mem:
  "r \<in> set (data_query v c (firstcase_query v)) \<longleftrightarrow>
     (\<exists>s\<in>set v. \<exists>d\<in>set c. s_state s = c_state_cd d \<and> r = select_row s d (baseline v (s_state s)))"
proof
  assume "r \<in> set (data_query v c (firstcase_query v))"
  then obtain s where s: "s \<in> set v"
    and "r \<in> set (map (\<lambda>d. select_row s d (baseline v (s_state s)))
                        (filter (\<lambda>d. s_state s = c_state_cd d) c))"
    unfolding data_query_firstcase by auto
  then obtain d where "d \<in> set c" "s_state s = c_state_cd d"
    "r = select_row s d (baseline v (s_state s))"
    by auto
  with s show "\<exists>s\<in>set v. \<exists>d\<in>set c. s_state s = c_state_cd d \<and>
      r = select_row s d (baseline v (s_state s))"
    by blast
next
  assume "\<exists>s\<in>set v. \<exists>d\<in>set c. s_state s = c_state_cd d \<and>
      r = select_row s d (baseline v (s_state s))"
  then obtain s d where s: "s \<in> set v" and d: "d \<in> set c" "s_state s = c_state_cd d"
    and r: "r = select_row s d (baseline v (s_state s))"
    by blast
  from d have "r \<in> set (map (\<lambda>d. select_row s d (baseline v (s_state s)))
                        (filter (\<lambda>d. s_state s = c_state_cd d) c))"
    unfolding r by simp
  with s show "r \<in> set (data_query v c (firstcase_query v))"
    unfolding data_query_firstcase by auto
qed

lemma data_query_null_baseline:
  "(\<exists>r\<in>set (data_query v c (firstcase_query v)). first_obs_dt r = None) \<longleftrightarrow>
   (\<exists>s\<in>set v. s_state s \<in> c_state_cd ` set c \<and> baseline v (s_state s) = None)"
proof
  assume "\<exists>r\<in>set (data_query v c (firstcase_query v)). first_obs_dt r = None"
  then obtain r where "r \<in> set (data_query v c (firstcase_query v))" "first_obs_dt r = None"
    by blast
  then obtain s d where "s \<in> set v" "d \<in> set c" "s_state s = c_state_cd d"
    "r = select_row s d (baseline v (s_state s))" "first_obs_dt r = None"
    unfolding data_query_firstcase_mem by blast
  then have "s \<in> set v \<and> s_state s \<in> c_state_cd ` set c \<and> baseline v (s_state s) = None"
    by (simp add: select_row_sel)
  then show "\<exists>s\<in>set v. s_state s \<in> c_state_cd ` set c \<and> baseline v (s_state s) = None"
    by blast
next
  assume "\<exists>s\<in>set v. s_state s \<in> c_state_cd ` set c \<and> baseline v (s_state s) = None"
  then obtain s d where s: "s \<in> set v" "d \<in> set c" "s_state s = c_state_cd d"
    and b: "baseline v (s_state s) = None"
    by blast
  from s have "select_row s d (baseline v (s_state s)) \<in> set (data_query v c (firstcase_query v))"
    unfolding data_query_firstcase_mem by blast
  moreover have "first_obs_dt (select_row s d (baseline v (s_state s))) = None"
    using b by (simp add: select_row_sel)
  ultimately show "\<exists>r\<in>set (data_query v c (firstcase_query v)). first_obs_dt r = None"
    by blast
qed

lemma concat_map_filter_empty:
  "(\<And>x. x \<in> set xs \<Longrightarrow> \<not> P x \<Longrightarrow> F x = []) \<Longrightarrow>
   concat (map F (filter P xs)) = concat (map F xs)"
  by (induction xs) auto

lemma data_query_state: "r \<in> set (data_query v c fc) \<Longrightarrow> state r \<in> c_state_cd ` set c"
proof -
  assume "r \<in> set (data_query v c fc)"
  then obtain s d where d: "d \<in> set c" "s_state s = c_state_cd d"
    and "r \<in> set (left_join_firstcase fc s d)"
    unfolding data_query_mem by blast
  then have "state r = s_state s"
    by (auto simp: left_join_mem select_row_sel)
  with d show ?thesis
    by simp
qed

lemma data_query_filter_census:
  "data_query (filter (\<lambda>s. s_state s \<in> c_state_cd ` set c) v) c fc = data_query v c fc"
proof -
  have "concat (map (left_join_firstcase fc s) (filter (\<lambda>d. s_state s = c_state_cd d) c)) = []"
    if "\<not> s_state s \<in> c_state_cd ` set c" for s
  proof -
    have "filter (\<lambda>d. s_state s = c_state_cd d) c = []"
      using that by (auto simp: filter_empty_conv)
    then show ?thesis
      by (simp only: list.map concat.simps)
  qed
  then show ?thesis
    unfolding data_query_def
    by (rule concat_map_filter_empty)
qed



section \<open>Properties of the metric columns\<close>

lemma metric_columns_sel:
  "state_name (metric_columns r d) = state_name r"
  "state (metric_columns r d) = state r"
  "obs_dt (metric_columns r d) = obs_dt r"
  "first_obs_dt (metric_columns r d) = first_obs_dt r"
  "positive (metric_columns r d) = positive r"
  "negative (metric_columns r d) = negative r"
  "pending (metric_columns r d) = pending r"
  "hospitalized (metric_columns r d) = hospitalized r"
  "death (metric_columns r d) = death r"
  "total_count (metric_columns r d) = total_count r"
  "population (metric_columns r d) = population r"
  "time_elapsed_since_firstpos (metric_columns r d) = time_elapsed r"
  "days_elapsed_since_firstpos (metric_columns r d) = d"
  "pos_per100k (metric_columns r d) = per100k (positive r) (population r)"
  "death_per100k (metric_columns r d) = per100k (death r) (population r)"
  "adj_multiplier (metric_columns r d) = multiplier d"
  "adj_pos_per100k (metric_columns r d) = fmul (per100k (positive r) (population r)) (multiplier d)"
  "adj_death_per100k (metric_columns r d) = fmul (per100k (death r) (population r)) (multiplier d)"
  by (simp_all add: metric_columns_def data_row.defs metric_row.defs)

lemma astype_int_Inr: "astype_int col = Inr ds \<longleftrightarrow> col = map Some ds"
proof (induction col arbitrary: ds)
  case Nil
  then show ?case by auto
next
  case (Cons a col)
  show ?case
  proof (cases a)
    case None
    then show ?thesis by auto
  next
    case (Some d)
    show ?thesis
    proof (cases "astype_int col")
      case (Inl e)
      have "\<And>ds'. col \<noteq> map Some ds'" using Cons Inl by simp
      with Some Inl show ?thesis by (cases ds) auto
    next
      case (Inr ds')
      have "col = map Some ds'" using Cons [of ds'] Inr by simp
      with Some Inr show ?thesis by (cases ds) auto
    qed
  qed
qed

lemma astype_int_Inl: "astype_int col = Inl e \<longleftrightarrow> e = ValueError \<and> None \<in> set col"
proof (induction col)
  case Nil
  then show ?case by simp
next
  case (Cons a col)
  then show ?case by (cases a; cases "astype_int col") auto
qed

lemma compute_metrics_Inr:
  "compute_metrics rows = Inr ms \<longleftrightarrow>
     (\<forall>r\<in>set rows. first_obs_dt r \<noteq> None) \<and>
     ms = map (\<lambda>r. metric_columns r (obs_dt r - the (first_obs_dt r))) rows"
proof (cases "astype_int (map time_elapsed rows)")
  case (Inl e)
  then have "None \<in> set (map time_elapsed rows)"
    by (simp add: astype_int_Inl)
  then obtain r where "r \<in> set rows" "time_elapsed r = None"
    by auto
  then have "\<exists>r\<in>set rows. first_obs_dt r = None"
    by (auto simp: time_elapsed_def split: option.splits)
  with Inl show ?thesis
    by (auto simp: compute_metrics_def)
next
  case (Inr ds)
  then have e: "map time_elapsed rows = map Some ds"
    by (simp add: astype_int_Inr)
  then have l: "length ds = length rows"
    by (metis length_map)
  have n: "\<And>i. i < length rows \<Longrightarrow> time_elapsed (rows ! i) = Some (ds ! i)"
    using e l by (metis nth_map)
  have a: "\<forall>r\<in>set rows. first_obs_dt r \<noteq> None"
  proof
    fix r assume "r \<in> set rows"
    then obtain i where "i < length rows" "rows ! i = r"
      by (auto simp: in_set_conv_nth)
    with n [of i] show "first_obs_dt r \<noteq> None"
      by (auto simp: time_elapsed_def split: option.splits)
  qed
  have "map (\<lambda>(r, d). metric_columns r d) (zip rows ds) =
        map (\<lambda>r. metric_columns r (obs_dt r - the (first_obs_dt r))) rows"
  proof (rule nth_equalityI)
    show "length (map (\<lambda>(r, d). metric_columns r d) (zip rows ds)) =
          length (map (\<lambda>r. metric_columns r (obs_dt r - the (first_obs_dt r))) rows)"
      using l by simp
  next
    fix i assume "i < length (map (\<lambda>(r, d). metric_columns r d) (zip rows ds))"
    then have i: "i < length rows" using l by simp
    with n [of i] have "ds ! i = obs_dt (rows ! i) - the (first_obs_dt (rows ! i))"
      by (auto simp: time_elapsed_def split: option.splits)
    with i l show "map (\<lambda>(r, d). metric_columns r d) (zip rows ds) ! i =
          map (\<lambda>r. metric_columns r (obs_dt r - the (first_obs_dt r))) rows ! i"
      by simp
  qed
  with Inr a show ?thesis
    by (auto simp: compute_metrics_def)
qed

lemma compute_metrics_Inl:
  "compute_metrics rows = Inl e \<longleftrightarrow> e = ValueError \<and> (\<exists>r\<in>set rows. first_obs_dt r = None)"
proof (cases "astype_int (map time_elapsed rows)")
  case (Inl e')
  then have v: "e' = ValueError" and "None \<in> set (map time_elapsed rows)"
    by (simp_all add: astype_int_Inl)
  then obtain r where "r \<in> set rows" "time_elapsed r = None"
    by auto
  then have "\<exists>r\<in>set rows. first_obs_dt r = None"
    by (auto simp: time_elapsed_def split: option.splits)
  with Inl v show ?thesis
    by (auto simp: compute_metrics_def)
next
  case (Inr ds)
  then have "compute_metrics rows = Inr (map (\<lambda>(r, d). metric_columns r d) (zip rows ds))"
    by (simp add: compute_metrics_def)
  then have "\<forall>r\<in>set rows. first_obs_dt r \<noteq> None"
    by (simp add: compute_metrics_Inr)
  with Inr show ?thesis
    by (auto simp: compute_metrics_def)
qed


lemma per100k_cases:
  "per100k n None = NaN"
  "per100k n (Some 0) = (if n = 0 then NaN else if 0 < n then PInf else NInf)"
  "p \<noteq> 0 \<Longrightarrow> per100k n (Some p) = Fin (100000 * real_of_int n / real_of_int p)"
  by (simp_all add: per100k_def)

lemma multiplier_cases:
  "multiplier d = (if d = -1 then NInf else Fin (real_of_int d / (1 + real_of_int d)))"
proof (cases "d = -1")
  case True
  then show ?thesis by (simp add: multiplier_def)
next
  case False
  then have "1 + real_of_int d \<noteq> 0"
    by (metis add.commute add_eq_0_iff2 of_int_1 of_int_add of_int_eq_0_iff add.inverse_inverse
        of_int_minus)
  with False show ?thesis by (simp add: multiplier_def)
qed

lemma multiplier_zero: "multiplier d = Fin 0 \<longleftrightarrow> d = 0"
proof (cases "d = -1")
  case True
  then show ?thesis by (simp add: multiplier_cases)
next
  case False
  then have "1 + real_of_int d \<noteq> 0"
    by (metis add.commute add_eq_0_iff2 of_int_1 of_int_add of_int_eq_0_iff add.inverse_inverse
        of_int_minus)
  with False show ?thesis by (simp add: multiplier_cases)
qed

lemma multiplier_not_null: "multiplier d \<noteq> NaN"
  by (simp add: multiplier_cases)

lemma multiplier_bounds:
  assumes "0 \<le> d"
  shows "\<exists>x. multiplier d = Fin x \<and> 0 \<le> x \<and> x < 1"
proof -
  from assms have p: "0 \<le> real_of_int d" "0 < 1 + real_of_int d"
    by simp_all
  from assms have "multiplier d = Fin (real_of_int d / (1 + real_of_int d))"
    by (simp add: multiplier_cases)
  moreover from p have "0 \<le> real_of_int d / (1 + real_of_int d)"
    by simp
  moreover from p have "real_of_int d / (1 + real_of_int d) < 1"
    by simp
  ultimately show ?thesis
    by blast
qed

lemma fmul_null: "fmul x y = NaN \<longleftrightarrow> x = NaN \<or> y = NaN \<or> zero_times_inf x y"
  by (cases x; cases y) (auto simp: zero_times_inf_def)

section \<open>The rows of a run\<close>

lemma pipeline_Inl:
  "pipeline v c = Inl e \<longleftrightarrow>
     e = ValueError \<and> (\<exists>s\<in>set v. s_state s \<in> c_state_cd ` set c \<and> baseline v (s_state s) = None)"
  unfolding pipeline_def compute_metrics_Inl data_query_null_baseline ..

lemma pipeline_row:
  assumes "pipeline v c = Inr ms" and "m \<in> set ms"
  shows "\<exists>s\<in>set v. \<exists>d\<in>set c. \<exists>f. s_state s = c_state_cd d \<and> baseline v (s_state s) = Some f \<and>
           m = metric_columns (select_row s d (Some f)) (s_obs_dt s - f)"
proof -
  from assms obtain r where r: "r \<in> set (data_query v c (firstcase_query v))"
    and m: "m = metric_columns r (obs_dt r - the (first_obs_dt r))"
    and n: "first_obs_dt r \<noteq> None"
    unfolding pipeline_def compute_metrics_Inr by auto
  from r obtain s d where s: "s \<in> set v" "d \<in> set c" "s_state s = c_state_cd d"
    and r': "r = select_row s d (baseline v (s_state s))"
    unfolding data_query_firstcase_mem by blast
  from n r' obtain f where f: "baseline v (s_state s) = Some f"
    by (auto simp: select_row_sel)
  from m r' f have "m = metric_columns (select_row s d (Some f)) (s_obs_dt s - f)"
    by (simp add: select_row_sel)
  with s f show ?thesis
    by blast
qed

lemma pipeline_state:
  assumes "pipeline v c = Inr ms" and "m \<in> set ms"
  shows "state m \<in> c_state_cd ` set c"
proof -
  from pipeline_row [OF assms] obtain s d f where "d \<in> set c" "s_state s = c_state_cd d"
    "m = metric_columns (select_row s d (Some f)) (s_obs_dt s - f)"
    by blast
  then show ?thesis
    by (simp add: metric_columns_sel select_row_sel)
qed

lemma run_pipeline_eq:
  "run_pipeline g =
     (case pipeline (virus_df g) (census_df g) of
        Inl e \<Rightarrow> Inl e
      | Inr rows \<Rightarrow> Inr (g\<lparr>firstcase := Some (firstcase_query (virus_df g)), data := Some rows\<rparr>))"
  by (simp add: run_pipeline_def firstcase_cell_def data_cells_def pipeline_def split: sum.splits)

section \<open>The example runs\<close>

lemma ex_firstcase:
  "firstcase_query ex_virus = [\<lparr>f_state = ''WA'', f_obs_dt = 5\<rparr>, \<lparr>f_state = ''ZZ'', f_obs_dt = 5\<rparr>]"
  by (simp add: firstcase_query_def ex_defs)

lemma ex_data_states:
  "map state (data_query ex_virus ex_census_df (firstcase_query ex_virus)) = [''WA'', ''WA'', ''WA'']"
  by (simp add: eval_defs ex_defs)

lemma ex_pipeline_states:
  "map_sum id (map state) (pipeline ex_virus ex_census_df) = Inr [''WA'', ''WA'', ''WA'']"
  by (simp add: eval_defs ex_defs)

lemma ex_pipeline_rows:
  "pipeline ex_virus ex_census_df =
     Inr [metric_columns (select_row (ex_case ''WA'' 3 None None) ex_wa (Some 5)) (- 2),
          metric_columns (select_row (ex_case ''WA'' 5 (Some 2) None) ex_wa (Some 5)) 0,
          metric_columns (select_row (ex_case ''WA'' 7 (Some 0) (Some 1)) ex_wa (Some 5)) 2]"
  by (simp add: eval_defs ex_defs ex_wa_def)

lemma ex_pipeline_wy_rows:
  "pipeline ex_virus_wy ex_census_wy =
     Inr [metric_columns (select_row (ex_case ''WY'' 10 (Some 10) (Some 0))
                            (ex_census ''56'' ''WY'' ''Wyoming'' (Some 0)) (Some 10)) 0]"
  by (simp add: eval_defs ex_wy_defs)

section \<open>Claims on the first observation\<close>

text \<open>
  C3. The table of the grouping query holds one row per state. A row is in the table
  exactly when its state has a record whose positive count is not null (a recorded zero
  qualifies, a null does not) and its date is the least date among these records. So a
  state with such a record is mapped to that least date, and a state without one has no
  row.
\<close>

theorem firstcase_is_min_date:
  "distinct (map f_state (firstcase_query v)) \<and>
   (f \<in> set (firstcase_query v) \<longleftrightarrow>
      qualifying_dates v (f_state f) \<noteq> [] \<and>
      f_obs_dt f = Min (set (qualifying_dates v (f_state f))))"
proof -
  have "f \<in> set (firstcase_query v) \<longleftrightarrow> baseline v (f_state f) = Some (f_obs_dt f)"
    by (simp add: first_obs_of_mem firstcase_distinct first_obs_of_baseline)
  then show ?thesis
    by (auto simp: firstcase_distinct baseline_def)
qed

text \<open>
  An instance: the zero of day 7 and the count of day 5 qualify, the nulls of day 3 and of
  the other state do not.
\<close>

theorem firstcase_is_min_date_witness:
  "firstcase_query [ex_case ''WA'' 7 (Some 0) None, ex_case ''WA'' 3 None None,
                    ex_case ''WA'' 5 (Some 2) None, ex_case ''NY'' 4 None None] =
     [\<lparr>f_state = ''WA'', f_obs_dt = 5\<rparr>] \<and>
   qualifying_dates [ex_case ''WA'' 7 (Some 0) None, ex_case ''WA'' 3 None None,
                    ex_case ''WA'' 5 (Some 2) None, ex_case ''NY'' 4 None None] ''WA'' = [7, 5] \<and>
   qualifying_dates [ex_case ''WA'' 7 (Some 0) None, ex_case ''WA'' 3 None None,
                    ex_case ''WA'' 5 (Some 2) None, ex_case ''NY'' 4 None None] ''NY'' = []"
  using firstcase_is_min_date [of "[ex_case ''WA'' 7 (Some 0) None, ex_case ''WA'' 3 None None,
                    ex_case ''WA'' 5 (Some 2) None, ex_case ''NY'' 4 None None]" "\<lparr>f_state = ''WA'', f_obs_dt = 5\<rparr>"]
  by (simp add: firstcase_query_def qualifying_dates_def ex_case_def)

text \<open>
  C10. A row of the join query has a null first-observation date exactly when every
  record of its state has a null positive count. So a state with one record whose
  positive count is not null has the date in all its rows, also in the rows of records
  whose own count is null: the table is joined on the state alone. The same holds of the
  rows of a run.
\<close>

theorem null_baseline_only_for_unobserved_states:
  "(\<forall>r\<in>set (data_query v c (firstcase_query v)).
      first_obs_dt r = None \<longleftrightarrow> (\<forall>s\<in>set v. s_state s = state r \<longrightarrow> s_positive s = None)) \<and>
   (\<forall>ms. pipeline v c = Inr ms \<longrightarrow>
      (\<forall>m\<in>set ms.
         first_obs_dt m = None \<longleftrightarrow> (\<forall>s\<in>set v. s_state s = state m \<longrightarrow> s_positive s = None)))"
proof (intro conjI ballI allI impI)
  fix r assume "r \<in> set (data_query v c (firstcase_query v))"
  then obtain s d where "r = select_row s d (baseline v (s_state s))"
    unfolding data_query_firstcase_mem by blast
  then have "first_obs_dt r = baseline v (state r)"
    by (simp add: select_row_sel)
  then show "first_obs_dt r = None \<longleftrightarrow> (\<forall>s\<in>set v. s_state s = state r \<longrightarrow> s_positive s = None)"
    by (simp add: baseline_None)
next
  fix ms m assume "pipeline v c = Inr ms" "m \<in> set ms"
  from pipeline_row [OF this] obtain s d f where "baseline v (s_state s) = Some f"
    "m = metric_columns (select_row s d (Some f)) (s_obs_dt s - f)"
    by blast
  then have "first_obs_dt m = baseline v (state m)"
    by (simp add: metric_columns_sel select_row_sel)
  then show "first_obs_dt m = None \<longleftrightarrow> (\<forall>s\<in>set v. s_state s = state m \<longrightarrow> s_positive s = None)"
    by (simp add: baseline_None)
qed

text \<open>
  An instance: the record of day 3 has a null count and its row carries the date of day 5;
  a state whose one record has a null count gets a null date.
\<close>

theorem null_baseline_only_for_unobserved_states_witness:
  "map s_positive ex_virus = [None, Some 2, Some 9, Some 0] \<and>
   map first_obs_dt (data_query ex_virus ex_census_df (firstcase_query ex_virus)) =
     [Some 5, Some 5, Some 5] \<and>
   map first_obs_dt (data_query [ex_case ''WA'' 3 None None] ex_census_df
                       (firstcase_query [ex_case ''WA'' 3 None None])) = [None] \<and>
   map_sum id (map first_obs_dt) (pipeline ex_virus ex_census_df) = Inr [Some 5, Some 5, Some 5]"
  using null_baseline_only_for_unobserved_states [of ex_virus ex_census_df]
    null_baseline_only_for_unobserved_states [of "[ex_case ''WA'' 3 None None]" ex_census_df]
  by (simp add: eval_defs ex_defs)

section \<open>Claims on the joins\<close>

text \<open>
  C4. Every row of the join query, and so every row of a run, carries a state code of
  the census table: the inner join drops each case record whose state has no census
  record, and the query answers as if these records were not in the input.
\<close>

theorem inner_join_drops_states_without_census:
  "(\<forall>r\<in>set (data_query v c fc). state r \<in> c_state_cd ` set c) \<and>
   data_query (filter (\<lambda>s. s_state s \<in> c_state_cd ` set c) v) c fc = data_query v c fc \<and>
   (\<forall>ms. pipeline v c = Inr ms \<longrightarrow> (\<forall>m\<in>set ms. state m \<in> c_state_cd ` set c))"
  using data_query_state [of _ v c fc] data_query_filter_census [of c v fc] pipeline_state [of v c]
  by blast

text \<open>
  An instance: the record of \<^verbatim>\<open>ZZ\<close> is in the case data and in no row, the three
  records of \<^verbatim>\<open>WA\<close> give the three rows.
\<close>

theorem inner_join_drops_states_without_census_witness:
  "map s_state ex_virus = [''WA'', ''WA'', ''ZZ'', ''WA''] \<and>
   map c_state_cd ex_census_df = [''WA''] \<and>
   map state (data_query ex_virus ex_census_df (firstcase_query ex_virus)) = [''WA'', ''WA'', ''WA''] \<and>
   map_sum id (map state) (pipeline ex_virus ex_census_df) = Inr [''WA'', ''WA'', ''WA'']"
  using inner_join_drops_states_without_census [of ex_virus ex_census_df "firstcase_query ex_virus"]
    ex_data_states ex_pipeline_states
  by (simp add: ex_defs)

text \<open>
  C2 against the code. American Samoa has one record, with a null positive count, and so
  no first observation. The join query keeps its row, with a null date, beside the row of
  Washington; the conversion of the elapsed times to whole days then raises
  \<^verbatim>\<open>ValueError\<close>, and the run writes no row at all.
\<close>

theorem missing_baseline_raises:
  "map first_obs_dt
     (data_query [ex_case ''AS'' 3 None None, ex_case ''WA'' 5 (Some 2) None]
        [ex_census ''60'' ''AS'' ''American Samoa'' (Some 55000), ex_wa]
        (firstcase_query [ex_case ''AS'' 3 None None, ex_case ''WA'' 5 (Some 2) None]))
     = [None, Some 5] \<and>
   pipeline [ex_case ''AS'' 3 None None, ex_case ''WA'' 5 (Some 2) None]
     [ex_census ''60'' ''AS'' ''American Samoa'' (Some 55000), ex_wa]
     = Inl ValueError"
  by (simp add: eval_defs ex_defs ex_wa_def)




section \<open>Claims on the counts and the rates\<close>



text \<open>
  C7, as the code has it. No cell checks the population and none raises an error for
  it: a run on a census table with other populations for the same states raises the same
  errors. The rates of a row with population zero are an infinity with the sign of the
  count, or null for a count of zero; with a negative population they are the quotient
  \<open>100000 * count / population\<close>, of the opposite sign; with a null population they
  are null.
\<close>

theorem invalid_population_not_checked:
  "(\<forall>c'. map c_state_cd c' = map c_state_cd c \<longrightarrow>
      (pipeline v c' = Inl e \<longleftrightarrow> pipeline v c = Inl e)) \<and>
   (\<forall>ms. pipeline v c = Inr ms \<longrightarrow>
      (\<forall>m\<in>set ms.
         (population m = None \<longrightarrow> pos_per100k m = NaN \<and> death_per100k m = NaN) \<and>
         (population m = Some 0 \<longrightarrow>
            pos_per100k m = (if positive m = 0 then NaN else if 0 < positive m then PInf else NInf) \<and>
            death_per100k m = (if death m = 0 then NaN else if 0 < death m then PInf else NInf)) \<and>
         (\<forall>p. population m = Some p \<and> p < 0 \<longrightarrow>
            pos_per100k m = Fin (100000 * real_of_int (positive m) / real_of_int p) \<and>
            death_per100k m = Fin (100000 * real_of_int (death m) / real_of_int p))))"
proof (intro conjI allI impI ballI)
  fix c' :: "census_record list" assume "map c_state_cd c' = map c_state_cd c"
  then have "set (map c_state_cd c') = set (map c_state_cd c)"
    by simp
  then have "c_state_cd ` set c' = c_state_cd ` set c"
    by simp
  then show "pipeline v c' = Inl e \<longleftrightarrow> pipeline v c = Inl e"
    by (simp only: pipeline_Inl)
next
  fix ms m assume a: "pipeline v c = Inr ms" "m \<in> set ms"
  from pipeline_row [OF a] obtain s d f where
    m: "m = metric_columns (select_row s d (Some f)) (s_obs_dt s - f)"
    by blast
  have r: "pos_per100k m = per100k (positive m) (population m)"
    "death_per100k m = per100k (death m) (population m)"
    unfolding m by (simp_all add: metric_columns_sel)
  {
    assume "population m = None"
    then show "pos_per100k m = NaN" "death_per100k m = NaN"
      by (simp_all add: r per100k_cases)
  }
  {
    assume "population m = Some 0"
    then show "pos_per100k m = (if positive m = 0 then NaN else if 0 < positive m then PInf else NInf)"
      "death_per100k m = (if death m = 0 then NaN else if 0 < death m then PInf else NInf)"
      by (simp_all add: r per100k_cases)
  }
  {
    fix p assume "population m = Some p \<and> p < 0"
    then show "pos_per100k m = Fin (100000 * real_of_int (positive m) / real_of_int p)"
      "death_per100k m = Fin (100000 * real_of_int (death m) / real_of_int p)"
      by (simp_all add: r per100k_cases)
  }
qed

text \<open>
  Instances: a population of zero gives an infinite rate for ten cases and a null rate for
  no deaths, a negative population a negative rate, a null population a null rate.
\<close>

theorem invalid_population_not_checked_witness:
  "map c_state_cd [ex_census ''56'' ''WY'' ''Wyoming'' None] = map c_state_cd ex_census_wy \<and>
   isl (pipeline ex_virus_wy [ex_census ''56'' ''WY'' ''Wyoming'' None]) =
     isl (pipeline ex_virus_wy ex_census_wy) \<and>
   map_sum id (map population) (pipeline ex_virus_wy ex_census_wy) = Inr [Some 0] \<and>
   map_sum id (map pos_per100k) (pipeline ex_virus_wy ex_census_wy) = Inr [PInf] \<and>
   map_sum id (map death_per100k) (pipeline ex_virus_wy ex_census_wy) = Inr [NaN] \<and>
   map_sum id (map pos_per100k)
     (pipeline ex_virus_wy [ex_census ''56'' ''WY'' ''Wyoming'' (Some (- 500000))]) = Inr [Fin (- 2)] \<and>
   map_sum id (map pos_per100k)
     (pipeline ex_virus_wy [ex_census ''56'' ''WY'' ''Wyoming'' None]) = Inr [NaN]"
  using invalid_population_not_checked [of ex_census_wy ex_virus_wy]
    invalid_population_not_checked [of "[ex_census ''56'' ''WY'' ''Wyoming'' (Some (- 500000))]" ex_virus_wy]
    invalid_population_not_checked [of "[ex_census ''56'' ''WY'' ''Wyoming'' None]" ex_virus_wy]
  by (simp add: eval_defs ex_wy_defs ex_defs)

text \<open>
  The claim as stated fails: with a population of zero the run returns, and the positive
  rate of its row is infinite.
\<close>

theorem zero_population_infinite_rate_counterexample:
  "map_sum id (map population) (pipeline ex_virus_wy ex_census_wy) = Inr [Some 0] \<and>
   map_sum id (map pos_per100k) (pipeline ex_virus_wy ex_census_wy) = Inr [PInf]"
  by (simp add: eval_defs ex_wy_defs)

section \<open>Claims on the elapsed days and the multiplier\<close>

text \<open>
  C1, as the code has it. The first observation of a row is the least date among the
  records of its state whose positive count is not null; the elapsed days are the date of
  the row minus it, and the multiplier is zero exactly when they are zero. For a row
  whose state and date are those of a record with a positive count that is not null, and
  for every row whose date is not before that least date, the elapsed days are not
  negative and the multiplier lies in \<open>[0, 1)\<close>. (A record with a null count can lie
  before the first observation of its state; its row is the counterexample below.)
\<close>

theorem multiplier_bounds_from_baseline:
  assumes "pipeline v c = Inr ms" and "m \<in> set ms"
  shows "first_obs_dt m = baseline v (state m) \<and>
         (\<forall>f. baseline v (state m) = Some f \<longrightarrow>
            days_elapsed_since_firstpos m = obs_dt m - f \<and>
            (f \<le> obs_dt m \<longrightarrow>
               0 \<le> days_elapsed_since_firstpos m \<and>
               (\<exists>x. adj_multiplier m = Fin x \<and> 0 \<le> x \<and> x < 1))) \<and>
         (adj_multiplier m = Fin 0 \<longleftrightarrow> days_elapsed_since_firstpos m = 0) \<and>
         ((\<exists>s\<in>set v. s_state s = state m \<and> s_obs_dt s = obs_dt m \<and> s_positive s \<noteq> None) \<longrightarrow>
            0 \<le> days_elapsed_since_firstpos m \<and>
            (\<exists>x. adj_multiplier m = Fin x \<and> 0 \<le> x \<and> x < 1))"
proof -
  from pipeline_row [OF assms] obtain s d f where b: "baseline v (s_state s) = Some f"
    and m: "m = metric_columns (select_row s d (Some f)) (s_obs_dt s - f)"
    by blast
  from m have st: "state m = s_state s" and fo: "first_obs_dt m = Some f"
    and dy: "days_elapsed_since_firstpos m = obs_dt m - f"
    and mu: "adj_multiplier m = multiplier (obs_dt m - f)"
    by (simp_all add: metric_columns_sel select_row_sel)
  from b st have bm: "baseline v (state m) = Some f"
    by simp
  have bd: "0 \<le> days_elapsed_since_firstpos m \<and>
      (\<exists>x. adj_multiplier m = Fin x \<and> 0 \<le> x \<and> x < 1)" if "f \<le> obs_dt m"
    using that multiplier_bounds [of "obs_dt m - f"] by (simp add: dy mu)
  have q: "f \<le> obs_dt m"
    if "\<exists>s\<in>set v. s_state s = state m \<and> s_obs_dt s = obs_dt m \<and> s_positive s \<noteq> None"
  proof -
    from that obtain s' where s': "s' \<in> set v" "s_state s' = state m" "s_obs_dt s' = obs_dt m"
      "s_positive s' \<noteq> None"
      by blast
    from s'(2) bm have "baseline v (s_state s') = Some f"
      by simp
    from qualifying_record_not_before_baseline [OF s'(1) s'(4) this] s'(3) show ?thesis
      by simp
  qed
  have z: "adj_multiplier m = Fin 0 \<longleftrightarrow> days_elapsed_since_firstpos m = 0"
    by (simp add: dy mu multiplier_zero)
  from fo bm dy bd q z show ?thesis
    by auto
qed

text \<open>
  An instance, at the row of the recorded zero of day 7: the first observation of
  Washington is day 5, and two days after it the multiplier is 2/3.
\<close>

theorem multiplier_bounds_from_baseline_witness:
  "baseline ex_virus ''WA'' = Some 5 \<and>
   ex_case ''WA'' 7 (Some 0) (Some 1) \<in> set ex_virus \<and>
   state (metric_columns (select_row (ex_case ''WA'' 7 (Some 0) (Some 1)) ex_wa (Some 5)) 2)
     = ''WA'' \<and>
   obs_dt (metric_columns (select_row (ex_case ''WA'' 7 (Some 0) (Some 1)) ex_wa (Some 5)) 2) = 7 \<and>
   days_elapsed_since_firstpos
     (metric_columns (select_row (ex_case ''WA'' 7 (Some 0) (Some 1)) ex_wa (Some 5)) 2) = 2 \<and>
   adj_multiplier (metric_columns (select_row (ex_case ''WA'' 7 (Some 0) (Some 1)) ex_wa (Some 5)) 2)
     = Fin (2 / 3)"
proof -
  have b: "baseline ex_virus ''WA'' = Some 5"
    by (simp add: baseline_def qualifying_dates_def ex_defs)
  show ?thesis
    using multiplier_bounds_from_baseline [OF ex_pipeline_rows,
        of "metric_columns (select_row (ex_case ''WA'' 7 (Some 0) (Some 1)) ex_wa (Some 5)) 2"] b
    by (simp add: metric_columns_sel select_row_sel ex_defs ex_wa_def multiplier_def)
qed

text \<open>
  The claim as stated fails: the record of day 3 has a null positive count, the first
  observation of its state is day 5, and its row has -2 elapsed days and the multiplier 2.
\<close>

theorem negative_elapsed_days_counterexample:
  "map_sum id (map days_elapsed_since_firstpos) (pipeline ex_virus ex_census_df) = Inr [- 2, 0, 2] \<and>
   map_sum id (map adj_multiplier) (pipeline ex_virus ex_census_df) = Inr [Fin 2, Fin 0, Fin (2 / 3)]"
  by (simp add: eval_defs ex_defs)

text \<open>
  C6, as the code has it. Each adjusted rate is the rate times the multiplier, the same
  product for the positive rate and for the death rate. An adjusted rate is null exactly
  when the multiplier is null, or its rate is null, or the product is zero times an
  infinity.
\<close>

theorem adjusted_rate_is_product:
  assumes "pipeline v c = Inr ms" and "m \<in> set ms"
  shows "adj_pos_per100k m = fmul (pos_per100k m) (adj_multiplier m) \<and>
         adj_death_per100k m = fmul (death_per100k m) (adj_multiplier m) \<and>
         (adj_pos_per100k m = NaN \<longleftrightarrow>
            adj_multiplier m = NaN \<or> pos_per100k m = NaN \<or>
            zero_times_inf (pos_per100k m) (adj_multiplier m)) \<and>
         (adj_death_per100k m = NaN \<longleftrightarrow>
            adj_multiplier m = NaN \<or> death_per100k m = NaN \<or>
            zero_times_inf (death_per100k m) (adj_multiplier m))"
proof -
  from pipeline_row [OF assms] obtain s d f where
    m: "m = metric_columns (select_row s d (Some f)) (s_obs_dt s - f)"
    by blast
  have p: "adj_pos_per100k m = fmul (pos_per100k m) (adj_multiplier m)"
    and q: "adj_death_per100k m = fmul (death_per100k m) (adj_multiplier m)"
    unfolding m by (simp_all add: metric_columns_sel)
  show ?thesis
    unfolding p q fmul_null by blast
qed

text \<open>An instance: the death rate 0.2 with the multiplier 2/3.\<close>

theorem adjusted_rate_is_product_witness:
  "adj_death_per100k
     (metric_columns (select_row (ex_case ''WA'' 7 (Some 0) (Some 1)) ex_wa (Some 5)) 2)
     = Fin (2 / 15) \<and>
   adj_pos_per100k
     (metric_columns (select_row (ex_case ''WA'' 7 (Some 0) (Some 1)) ex_wa (Some 5)) 2)
     = Fin 0"
  using adjusted_rate_is_product [OF ex_pipeline_rows,
      of "metric_columns (select_row (ex_case ''WA'' 7 (Some 0) (Some 1)) ex_wa (Some 5)) 2"]
  by (simp add: metric_columns_sel select_row_sel ex_defs ex_wa_def multiplier_def per100k_def)

text \<open>
  The claim as stated fails: with a population of zero and no deaths the death rate is
  null, and so is the adjusted death rate, while the multiplier is the number zero. The
  same holds of both adjusted rates when the population is null.
\<close>

theorem adjusted_null_multiplier_not_null_counterexample:
  "map_sum id (map adj_death_per100k) (pipeline ex_virus_wy ex_census_wy) = Inr [NaN] \<and>
   map_sum id (map adj_multiplier) (pipeline ex_virus_wy ex_census_wy) = Inr [Fin 0] \<and>
   map_sum id (map adj_pos_per100k)
     (pipeline ex_virus_wy [ex_census ''56'' ''WY'' ''Wyoming'' None]) = Inr [NaN] \<and>
   map_sum id (map adj_multiplier)
     (pipeline ex_virus_wy [ex_census ''56'' ''WY'' ''Wyoming'' None]) = Inr [Fin 0]"
  by (simp add: eval_defs ex_wy_defs)

section \<open>Claims on repeated runs\<close>

text \<open>
  C9. A run reads the two input tables from the globals and writes \<^verbatim>\<open>firstcase\<close>
  and \<^verbatim>\<open>data\<close>; it leaves the inputs as they are. So the rows it writes are a
  function of the two inputs, whatever an earlier run left in the globals, and a second
  run after a first one writes the same rows again.
\<close>

theorem run_twice_same_rows:
  "(\<forall>g'. run_pipeline g = Inr g' \<longrightarrow>
      virus_df g' = virus_df g \<and> census_df g' = census_df g \<and> run_pipeline g' = Inr g') \<and>
   map_sum id data (run_pipeline g) = map_sum id Some (pipeline (virus_df g) (census_df g)) \<and>
   (virus_df g1 = virus_df g2 \<and> census_df g1 = census_df g2 \<longrightarrow>
      run_pipeline g1 = run_pipeline g2)"
proof (intro conjI allI impI)
  fix g' assume r: "run_pipeline g = Inr g'"
  then obtain rows where p: "pipeline (virus_df g) (census_df g) = Inr rows"
    and g': "g' = g\<lparr>firstcase := Some (firstcase_query (virus_df g)), data := Some rows\<rparr>"
    by (auto simp: run_pipeline_eq split: sum.splits)
  from g' show "virus_df g' = virus_df g" "census_df g' = census_df g"
    by simp_all
  with p g' show "run_pipeline g' = Inr g'"
    by (simp add: run_pipeline_eq)
next
  show "map_sum id data (run_pipeline g) = map_sum id Some (pipeline (virus_df g) (census_df g))"
    by (simp add: run_pipeline_eq split: sum.splits)
next
  assume "virus_df g1 = virus_df g2 \<and> census_df g1 = census_df g2"
  then show "run_pipeline g1 = run_pipeline g2"
    by (cases g1; cases g2) (simp add: run_pipeline_eq split: sum.splits)
qed

text \<open>
  An instance: a first run from globals where the two tables are not bound yet, a run from
  globals where an earlier run left empty tables, and a second run after the first all end
  in the same globals.
\<close>

theorem run_twice_same_rows_witness:
  "run_pipeline (ex_globals None None) = Inr (ex_globals (Some (firstcase_query ex_virus)) (Some ex_rows)) \<and>
   run_pipeline (ex_globals (Some []) (Some [])) =
     Inr (ex_globals (Some (firstcase_query ex_virus)) (Some ex_rows)) \<and>
   run_pipeline (ex_globals (Some (firstcase_query ex_virus)) (Some ex_rows)) =
     Inr (ex_globals (Some (firstcase_query ex_virus)) (Some ex_rows))"
proof -
  have r: "run_pipeline (ex_globals None None) =
      Inr (ex_globals (Some (firstcase_query ex_virus)) (Some ex_rows))"
    by (simp add: run_pipeline_eq ex_globals_def ex_pipeline_rows ex_rows_def)
  have i: "virus_df (ex_globals None None) = virus_df (ex_globals (Some []) (Some [])) \<and>
      census_df (ex_globals None None) = census_df (ex_globals (Some []) (Some []))"
    by (simp add: ex_globals_def)
  show ?thesis
    using run_twice_same_rows [of "ex_globals None None" "ex_globals None None"
        "ex_globals (Some []) (Some [])"] r i
    by simp
qed

end
